theory Spec2Isabelle
  imports Main "HOL-Library.Multiset"
begin

section \<open>Formatting and parsing of integers\<close>

text \<open>
  \<^verbatim>\<open>fmt.Sprintf("%d", n)\<close>: the decimal rendering of an integer, with a leading
  minus sign for a negative one.
\<close>

definition digit_char :: "nat \<Rightarrow> char" where
  "digit_char n = char_of (48 + n)"

fun nat_digits :: "nat \<Rightarrow> string" where
  "nat_digits n =
     (if n < 10 then [digit_char n] else nat_digits (n div 10) @ [digit_char (n mod 10)])"

declare nat_digits.simps [simp del]

definition fmt_d :: "int \<Rightarrow> string" where
  "fmt_d i = (if i < 0 then CHR ''-'' # nat_digits (nat (- i)) else nat_digits (nat i))"

text \<open>
  \<^verbatim>\<open>strconv.Atoi\<close>: an optional sign, then one or more ASCII digits; the value has to
  fit the 64-bit \<^verbatim>\<open>int\<close>. Every other string is an error.
\<close>

definition is_digit :: "char \<Rightarrow> bool" where
  "is_digit c = (48 \<le> (of_char c :: nat) \<and> (of_char c :: nat) \<le> 57)"

definition digits_value :: "string \<Rightarrow> nat" where
  "digits_value ds = foldl (\<lambda>a c. 10 * a + (of_char c - 48)) 0 ds"

definition Atoi :: "string \<Rightarrow> int option" where
  "Atoi s =
     (let neg = (case s of c # _ \<Rightarrow> c = CHR ''-'' | [] \<Rightarrow> False);
          ds = (case s of c # t \<Rightarrow> if c = CHR ''-'' \<or> c = CHR ''+'' then t else s | [] \<Rightarrow> s)
      in if ds = [] \<or> \<not> list_all is_digit ds then None
         else let v = int (digits_value ds); n = (if neg then - v else v)
              in if n < - (2 ^ 63) \<or> 2 ^ 63 - 1 < n then None else Some n)"

section \<open>The notes table (funcs/sql.go)\<close>

text \<open>
  A \<^verbatim>\<open>Note\<close> is one row of the table \<^verbatim>\<open>notes(id, date_created, image, markdown)\<close>.
  Timestamps are integers (\<^verbatim>\<open>CURRENT_TIMESTAMP\<close> counts whole seconds). The table is
  the list of its rows; \<open>seq\<close> is the counter SQLite keeps for an
  \<^verbatim>\<open>AUTOINCREMENT\<close> key (the largest id ever handed out).
\<close>

type_synonym time = int

record Note =
  ID :: int
  DateCreated :: time
  Image :: string
  Markdown :: string

record db =
  rows :: "Note list"
  seq :: int

text \<open>
  The database driver is outside the repository. Each of its calls that the code checks
  for an error takes its outcome from this record: \<open>None\<close> when the call succeeds,
  \<open>Some m\<close> when it fails with the message \<open>m\<close>. A statement that fails changes
  no row.
\<close>

record faults =
  exec_err :: "string option"
  last_insert_id_err :: "string option"
  rows_affected_err :: "string option"
  query_err :: "string option"
  scan_err :: "string option"
  rows_err :: "string option"

definition no_faults :: faults where
  "no_faults = \<lparr>exec_err = None, last_insert_id_err = None, rows_affected_err = None,
     query_err = None, scan_err = None, rows_err = None\<rparr>"

text \<open>
  The errors of the package \<^verbatim>\<open>funcs\<close>, one constructor for each \<^verbatim>\<open>fmt.Errorf\<close> of
  the source; a wrapped cause (\<^verbatim>\<open>%w\<close>) is the constructor's argument. \<open>Error\<close> is the
  text of \<^verbatim>\<open>err.Error()\<close>.
\<close>

datatype error =
    InsertFailed string
  | LastInsertIdFailed string
  | UpdateFailed string
  | RowsAffectedFailed string
  | NoNoteFound int
  | ScanFailed string
  | QueryFailed string
  | IterFailed string
  | ApiKeyNotSet
  | ReadFileFailed string
  | AiRequestFailed string
  | NoChoices

fun Error :: "error \<Rightarrow> string" where
  "Error (InsertFailed m) = ''failed to insert note: '' @ m"
| "Error (LastInsertIdFailed m) = ''failed to get last insert id: '' @ m"
| "Error (UpdateFailed m) = ''failed to update note: '' @ m"
| "Error (RowsAffectedFailed m) = ''failed to get rows affected: '' @ m"
| "Error (NoNoteFound i) = ''no note found with id '' @ fmt_d i"
| "Error (ScanFailed m) = ''failed to scan note: '' @ m"
| "Error (QueryFailed m) = ''failed to query notes: '' @ m"
| "Error (IterFailed m) = ''error iterating notes: '' @ m"
| "Error ApiKeyNotSet = ''OPENAI_API_KEY environment variable not set''"
| "Error (ReadFileFailed m) = ''failed to read image file: '' @ m"
| "Error (AiRequestFailed m) = ''ai request failed: '' @ m"
| "Error NoChoices = ''no response choices returned''"

text \<open>
  \<^verbatim>\<open>INSERT INTO notes (image, markdown) VALUES (?, ?)\<close>: the new id is one more than
  the largest id ever used, \<^verbatim>\<open>date_created\<close> is the database's clock. SQLite refuses
  the insert once the largest 64-bit id has been used. The returned note carries the
  clock of the Go process (\<^verbatim>\<open>time.Now()\<close>), not the stored timestamp.
\<close>

definition AddNote ::
  "faults \<Rightarrow> time \<Rightarrow> time \<Rightarrow> db \<Rightarrow> string \<Rightarrow> string \<Rightarrow> (error + Note) \<times> db" where
  "AddNote f db_now go_now d img markdown =
     (case exec_err f of
        Some m \<Rightarrow> (Inl (InsertFailed m), d)
      | None \<Rightarrow>
          let new_id = fold max (map ID (rows d)) (seq d) + 1
          in if 2 ^ 63 - 1 < new_id then (Inl (InsertFailed ''database or disk is full''), d)
             else
               let d' = \<lparr>rows = rows d @
                           [\<lparr>ID = new_id, DateCreated = db_now, Image = img,
                             Markdown = markdown\<rparr>],
                         seq = new_id\<rparr>
               in (case last_insert_id_err f of
                     Some m \<Rightarrow> (Inl (LastInsertIdFailed m), d')
                   | None \<Rightarrow>
                       (Inr \<lparr>ID = new_id, DateCreated = go_now, Image = img,
                             Markdown = markdown\<rparr>, d')))"

text \<open>
  \<^verbatim>\<open>SELECT ... FROM notes WHERE id = ?\<close> read with \<^verbatim>\<open>QueryRow(...).Scan\<close>: the first
  matching row; \<^verbatim>\<open>sql.ErrNoRows\<close> when there is none; any other failure of the query or
  of the scan is reported as a scan failure.
\<close>

definition GetNoteByID :: "faults \<Rightarrow> db \<Rightarrow> int \<Rightarrow> error + Note" where
  "GetNoteByID f d i =
     (case scan_err f of
        Some m \<Rightarrow> Inl (ScanFailed m)
      | None \<Rightarrow>
          (case find (\<lambda>r. ID r = i) (rows d) of
             None \<Rightarrow> Inl (NoNoteFound i)
           | Some note \<Rightarrow> Inr note))"

text \<open>
  \<^verbatim>\<open>UPDATE notes SET image = ?, markdown = ? WHERE id = ?\<close>: every row whose id matches
  gets the new image and markdown, no other column is assigned; \<^verbatim>\<open>RowsAffected\<close> is the
  number of matching rows. The note returned is read back with \<open>GetNoteByID\<close>.
\<close>

definition exec_update :: "db \<Rightarrow> int \<Rightarrow> string \<Rightarrow> string \<Rightarrow> db \<times> nat" where
  "exec_update d i img markdown =
     (d\<lparr>rows := map (\<lambda>r. if ID r = i then r\<lparr>Image := img, Markdown := markdown\<rparr> else r)
                   (rows d)\<rparr>,
      length (filter (\<lambda>r. ID r = i) (rows d)))"

definition UpdateNote ::
  "faults \<Rightarrow> db \<Rightarrow> int \<Rightarrow> string \<Rightarrow> string \<Rightarrow> (error + Note) \<times> db" where
  "UpdateNote f d i img markdown =
     (case exec_err f of
        Some m \<Rightarrow> (Inl (UpdateFailed m), d)
      | None \<Rightarrow>
          let (d', rowsAffected) = exec_update d i img markdown
          in (case rows_affected_err f of
                Some m \<Rightarrow> (Inl (RowsAffectedFailed m), d')
              | None \<Rightarrow>
                  if rowsAffected = 0 then (Inl (NoNoteFound i), d')
                  else (GetNoteByID f d' i, d')))"

text \<open>
  \<^verbatim>\<open>SELECT ... FROM notes ORDER BY date_created DESC\<close>, read row by row. The order of
  rows with equal timestamps is the engine's choice; the model takes a stable sort.
\<close>

definition query_all :: "db \<Rightarrow> Note list" where
  "query_all d = sort_key (\<lambda>r. - DateCreated r) (rows d)"

fun scan_rows :: "faults \<Rightarrow> Note list \<Rightarrow> Note list \<Rightarrow> error + Note list" where
  "scan_rows f [] notes = Inr notes"
| "scan_rows f (r # rs) notes =
     (case scan_err f of
        Some m \<Rightarrow> Inl (ScanFailed m)
      | None \<Rightarrow> scan_rows f rs (notes @ [r]))"

definition GetAllNotes :: "faults \<Rightarrow> db \<Rightarrow> error + Note list" where
  "GetAllNotes f d =
     (case query_err f of
        Some m \<Rightarrow> Inl (QueryFailed m)
      | None \<Rightarrow>
          (case scan_rows f (query_all d) [] of
             Inl e \<Rightarrow> Inl e
           | Inr notes \<Rightarrow>
               (case rows_err f of
                  Some m \<Rightarrow> Inl (IterFailed m)
                | None \<Rightarrow> Inr notes)))"

section \<open>The transcription client (funcs.ConvertImageToMarkdown)\<close>

text \<open>
  What the client depends on outside the repository: whether the process holds a client
  (\<^verbatim>\<open>aiClient != nil\<close>), the variable \<^verbatim>\<open>OPENAI_API_KEY\<close>, a failure of
  \<^verbatim>\<open>os.ReadFile\<close> on a file that exists, and the remote endpoint. The request is built
  from the image bytes alone (the prompt and the model are constants, the MIME type and
  the base64 text are functions of the bytes), so the endpoint is a function from the
  bytes to an error or to the contents of the choices it returns.
\<close>

record ai_env =
  client_set :: bool
  api_key :: string
  read_err :: "string option"
  complete :: "string \<Rightarrow> string + string list"

definition ConvertImageToMarkdown ::
  "ai_env \<Rightarrow> (string \<rightharpoonup> string) \<Rightarrow> string \<Rightarrow> error + string" where
  "ConvertImageToMarkdown a fs imagePath =
     (if \<not> client_set a \<and> api_key a = [] then Inl ApiKeyNotSet
      else
        (case fs imagePath of
           None \<Rightarrow> Inl (ReadFileFailed (''open '' @ imagePath @ '': no such file or directory''))
         | Some imageData \<Rightarrow>
             (case read_err a of
                Some m \<Rightarrow> Inl (ReadFileFailed m)
              | None \<Rightarrow>
                  (case complete a imageData of
                     Inl m \<Rightarrow> Inl (AiRequestFailed m)
                   | Inr choices \<Rightarrow>
                       (case choices of
                          [] \<Rightarrow> Inl NoChoices
                        | c # _ \<Rightarrow> Inr c)))))"

section \<open>The request handlers\<close>

text \<open>
  The state the handlers share: the notes table and the directory \<^verbatim>\<open>./images\<close>, a map
  from a file's path to its bytes.
\<close>

record world =
  database :: db
  files :: "string \<rightharpoonup> string"

text \<open>
  A request as the handlers read it: the method, the form value \<^verbatim>\<open>id\<close> (empty when
  absent), whether the handler's own call of \<^verbatim>\<open>ParseMultipartForm\<close> or \<^verbatim>\<open>ParseForm\<close>
  fails, and the file part \<^verbatim>\<open>image\<close> with its header.
\<close>

record upload =
  Filename :: string
  Size :: int
  content :: string

record request =
  Method :: string
  id_value :: string
  parse_err :: bool
  image_file :: "upload option"

record response =
  status :: nat
  content_type :: string
  body :: string

text \<open>
  What a handler meets outside the repository during one request: failures of
  \<^verbatim>\<open>os.Create\<close> and of \<^verbatim>\<open>io.Copy\<close> (after so many bytes), the transcription client's
  environment, the driver's outcomes for the lookup and for the write, and the two clocks.
\<close>

record env =
  create_err :: bool
  copy_err :: "nat option"
  ai :: ai_env
  lookup_faults :: faults
  store_faults :: faults
  db_now :: time
  go_now :: time

definition http_Error :: "string \<Rightarrow> nat \<Rightarrow> response" where
  "http_Error msg code =
     \<lparr>status = code, content_type = ''text/plain; charset=utf-8'', body = msg @ [CHR 0x0A]\<rparr>"

text \<open>
  \<^verbatim>\<open>filepath.Ext\<close>: the suffix that starts at the last dot of the last path element,
  empty when that element has no dot.
\<close>

fun ext_scan :: "string \<Rightarrow> string \<Rightarrow> string" where
  "ext_scan [] acc = []"
| "ext_scan (c # cs) acc =
     (if c = CHR ''/'' then []
      else if c = CHR ''.'' then c # acc
      else ext_scan cs (c # acc))"

definition Ext :: "string \<Rightarrow> string" where
  "Ext path = ext_scan (rev path) []"

text \<open>
  The name under which an upload is stored, \<^verbatim>\<open>fmt.Sprintf("%d%s", header.Size, ext)\<close>,
  and its path \<^verbatim>\<open>filepath.Join("./images", filename)\<close>, which for a name without a
  separator is the name after \<^verbatim>\<open>images/\<close>.
\<close>

definition stored_filename :: "upload \<Rightarrow> string" where
  "stored_filename header = fmt_d (Size header) @ Ext (Filename header)"

definition image_path :: "string \<Rightarrow> string" where
  "image_path filename = ''images/'' @ filename"

text \<open>
  \<^verbatim>\<open>os.Create\<close> followed by \<^verbatim>\<open>io.Copy\<close>, as both upload handlers do it: the file is
  created or truncated, then filled. The result says whether both calls succeeded.
\<close>

definition save_image ::
  "env \<Rightarrow> upload \<Rightarrow> (string \<rightharpoonup> string) \<Rightarrow> bool \<times> (string \<rightharpoonup> string)" where
  "save_image e header fs =
     (let imagePath = image_path (stored_filename header)
      in if create_err e then (False, fs)
         else
           (case copy_err e of
              Some k \<Rightarrow> (False, fs(imagePath \<mapsto> take k (content header)))
            | None \<Rightarrow> (True, fs(imagePath \<mapsto> content header))))"

text \<open>
  \<^verbatim>\<open>strings.ReplaceAll(s, "\n", "\\n")\<close> and the success response, written with
  \<^verbatim>\<open>fmt.Fprintf\<close> after the content type has been set.
\<close>

definition replace_newlines :: "string \<Rightarrow> string" where
  "replace_newlines s = concat (map (\<lambda>c. if c = CHR 0x0A then [CHR 0x5C, CHR ''n''] else [c]) s)"

definition success_body :: "Note \<Rightarrow> string" where
  "success_body note =
     ''{\"success\": true, \"id\": '' @ fmt_d (ID note) @ '', \"image\": \"'' @ Image note @
     ''\", \"markdown\": \"'' @ replace_newlines (Markdown note) @ ''\"}''"

definition success_response :: "Note \<Rightarrow> response" where
  "success_response note =
     \<lparr>status = 200, content_type = ''application/json'', body = success_body note\<rparr>"

definition AddNoteHandler :: "env \<Rightarrow> world \<Rightarrow> request \<Rightarrow> response \<times> world" where
  "AddNoteHandler e w r =
     (if Method r \<noteq> ''POST'' then (http_Error ''Method not allowed'' 405, w)
      else if parse_err r then (http_Error ''Failed to parse form'' 400, w)
      else
        (case image_file r of
           None \<Rightarrow> (http_Error ''No image file provided'' 400, w)
         | Some header \<Rightarrow>
             (let filename = stored_filename header;
                  imagePath = image_path filename;
                  (saved, fs) = save_image e header (files w);
                  w1 = w\<lparr>files := fs\<rparr>
              in if \<not> saved then (http_Error ''Failed to save image'' 500, w1)
                 else
                   (case ConvertImageToMarkdown (ai e) fs imagePath of
                      Inl err \<Rightarrow> (http_Error ''Failed to convert image to markdown'' 500, w1)
                    | Inr markdown \<Rightarrow>
                        (case AddNote (store_faults e) (db_now e) (go_now e) (database w1)
                                filename markdown of
                           (Inl err, d) \<Rightarrow>
                             (http_Error ''Failed to save to database'' 500,
                              w1\<lparr>database := d\<rparr>)
                         | (Inr note, d) \<Rightarrow>
                             (success_response note, w1\<lparr>database := d\<rparr>))))))"

definition UpdateNoteHandler :: "env \<Rightarrow> world \<Rightarrow> request \<Rightarrow> response \<times> world" where
  "UpdateNoteHandler e w r =
     (if Method r \<noteq> ''POST'' then (http_Error ''Method not allowed'' 405, w)
      else if id_value r = [] then (http_Error ''Note ID required'' 400, w)
      else
        (case Atoi (id_value r) of
           None \<Rightarrow> (http_Error ''Invalid note ID'' 400, w)
         | Some i \<Rightarrow>
             if parse_err r then (http_Error ''Failed to parse form'' 400, w)
             else
               (case image_file r of
                  None \<Rightarrow> (http_Error ''No image file provided'' 400, w)
                | Some header \<Rightarrow>
                    (let filename = stored_filename header;
                         imagePath = image_path filename;
                         (saved, fs) = save_image e header (files w);
                         w1 = w\<lparr>files := fs\<rparr>
                     in if \<not> saved then (http_Error ''Failed to save image'' 500, w1)
                        else
                          (case ConvertImageToMarkdown (ai e) fs imagePath of
                             Inl err \<Rightarrow>
                               (http_Error ''Failed to convert image to markdown'' 500, w1)
                           | Inr markdown \<Rightarrow>
                               (case UpdateNote (store_faults e) (database w1) i filename
                                       markdown of
                                  (Inl err, d) \<Rightarrow>
                                    (http_Error ''Failed to update database'' 500,
                                     w1\<lparr>database := d\<rparr>)
                                | (Inr note, d) \<Rightarrow>
                                    (success_response note, w1\<lparr>database := d\<rparr>)))))))"

text \<open>
  \<^verbatim>\<open>os.Stat\<close> reports \<^verbatim>\<open>IsNotExist\<close> exactly when the directory has no file at the
  path.
\<close>

definition RegenerateNoteHandler :: "env \<Rightarrow> world \<Rightarrow> request \<Rightarrow> response \<times> world" where
  "RegenerateNoteHandler e w r =
     (if Method r \<noteq> ''POST'' then (http_Error ''Method not allowed'' 405, w)
      else if id_value r = [] then (http_Error ''Note ID required'' 400, w)
      else
        (case Atoi (id_value r) of
           None \<Rightarrow> (http_Error ''Invalid note ID'' 400, w)
         | Some i \<Rightarrow>
             if parse_err r then (http_Error ''Failed to parse form'' 400, w)
             else
               (case GetNoteByID (lookup_faults e) (database w) i of
                  Inl err \<Rightarrow> (http_Error (''Failed to retrieve note: '' @ Error err) 404, w)
                | Inr note \<Rightarrow>
                    (let imagePath = image_path (Image note)
                     in if files w imagePath = None
                        then (http_Error ''Image file not found'' 404, w)
                        else
                          (case ConvertImageToMarkdown (ai e) (files w) imagePath of
                             Inl err \<Rightarrow>
                               (http_Error
                                  (''Failed to convert image to markdown: '' @ Error err) 500, w)
                           | Inr markdown \<Rightarrow>
                               (case UpdateNote (store_faults e) (database w) i (Image note)
                                       markdown of
                                  (Inl err, d) \<Rightarrow>
                                    (http_Error (''Failed to update database: '' @ Error err)
                                       500, w\<lparr>database := d\<rparr>)
                                | (Inr updatedNote, d) \<Rightarrow>
                                    (success_response updatedNote,
                                     w\<lparr>database := d\<rparr>)))))))"

section \<open>Well-formed JSON texts\<close>

text \<open>
  The grammar of RFC 8259 as a pushdown recognizer over the characters of a text: a mode
  says what may come next, the stack holds the objects and arrays that are open. It is
  the measure against which the success body is judged; no code of the repository parses
  JSON.
\<close>

datatype frame = InObject | InArray

datatype num_state = NMinus | NZero | NInt | NDot | NFrac | NExp | NExpSign | NExpDigits

datatype mode =
    Value
  | ArrStart
  | ObjStart
  | Key
  | Colon
  | After
  | InString bool
  | Escape bool
  | Hex nat bool
  | Literal string
  | Number num_state

definition is_ws :: "char \<Rightarrow> bool" where
  "is_ws c = (c = CHR '' '' \<or> c = CHR 0x09 \<or> c = CHR 0x0A \<or> c = CHR 0x0D)"

definition is_hex :: "char \<Rightarrow> bool" where
  "is_hex c = (is_digit c \<or> c \<in> set ''abcdefABCDEF'')"

definition start_value :: "frame list \<Rightarrow> char \<Rightarrow> (mode \<times> frame list) option" where
  "start_value st c =
     (if c = CHR ''{'' then Some (ObjStart, InObject # st)
      else if c = CHR ''['' then Some (ArrStart, InArray # st)
      else if c = CHR 0x22 then Some (InString False, st)
      else if c = CHR ''-'' then Some (Number NMinus, st)
      else if c = CHR ''0'' then Some (Number NZero, st)
      else if is_digit c then Some (Number NInt, st)
      else if c = CHR ''t'' then Some (Literal ''rue'', st)
      else if c = CHR ''f'' then Some (Literal ''alse'', st)
      else if c = CHR ''n'' then Some (Literal ''ull'', st)
      else None)"

definition after_value :: "frame list \<Rightarrow> char \<Rightarrow> (mode \<times> frame list) option" where
  "after_value st c =
     (if is_ws c then Some (After, st)
      else if c = CHR '','' then
        (case st of [] \<Rightarrow> None | InObject # _ \<Rightarrow> Some (Key, st) | InArray # _ \<Rightarrow> Some (Value, st))
      else if c = CHR ''}'' then
        (case st of InObject # st' \<Rightarrow> Some (After, st') | _ \<Rightarrow> None)
      else if c = CHR '']'' then
        (case st of InArray # st' \<Rightarrow> Some (After, st') | _ \<Rightarrow> None)
      else None)"

fun number_step :: "num_state \<Rightarrow> frame list \<Rightarrow> char \<Rightarrow> (mode \<times> frame list) option" where
  "number_step NMinus st c =
     (if c = CHR ''0'' then Some (Number NZero, st)
      else if is_digit c then Some (Number NInt, st) else None)"
| "number_step NZero st c =
     (if c = CHR ''.'' then Some (Number NDot, st)
      else if c = CHR ''e'' \<or> c = CHR ''E'' then Some (Number NExp, st)
      else after_value st c)"
| "number_step NInt st c =
     (if is_digit c then Some (Number NInt, st)
      else if c = CHR ''.'' then Some (Number NDot, st)
      else if c = CHR ''e'' \<or> c = CHR ''E'' then Some (Number NExp, st)
      else after_value st c)"
| "number_step NDot st c = (if is_digit c then Some (Number NFrac, st) else None)"
| "number_step NFrac st c =
     (if is_digit c then Some (Number NFrac, st)
      else if c = CHR ''e'' \<or> c = CHR ''E'' then Some (Number NExp, st)
      else after_value st c)"
| "number_step NExp st c =
     (if c = CHR ''+'' \<or> c = CHR ''-'' then Some (Number NExpSign, st)
      else if is_digit c then Some (Number NExpDigits, st) else None)"
| "number_step NExpSign st c = (if is_digit c then Some (Number NExpDigits, st) else None)"
| "number_step NExpDigits st c =
     (if is_digit c then Some (Number NExpDigits, st) else after_value st c)"

fun json_step :: "mode \<Rightarrow> frame list \<Rightarrow> char \<Rightarrow> (mode \<times> frame list) option" where
  "json_step Value st c = (if is_ws c then Some (Value, st) else start_value st c)"
| "json_step ArrStart st c =
     (if is_ws c then Some (ArrStart, st)
      else if c = CHR '']'' then after_value st c
      else start_value st c)"
| "json_step ObjStart st c =
     (if is_ws c then Some (ObjStart, st)
      else if c = CHR ''}'' then after_value st c
      else if c = CHR 0x22 then Some (InString True, st)
      else None)"
| "json_step Key st c =
     (if is_ws c then Some (Key, st)
      else if c = CHR 0x22 then Some (InString True, st)
      else None)"
| "json_step Colon st c =
     (if is_ws c then Some (Colon, st)
      else if c = CHR '':'' then Some (Value, st)
      else None)"
| "json_step After st c = after_value st c"
| "json_step (InString k) st c =
     (if c = CHR 0x22 then Some (if k then Colon else After, st)
      else if c = CHR 0x5C then Some (Escape k, st)
      else if (of_char c :: nat) < 32 then None
      else Some (InString k, st))"
| "json_step (Escape k) st c =
     (if c = CHR 0x22 \<or> c = CHR 0x5C \<or> c \<in> set ''/bfnrt'' then Some (InString k, st)
      else if c = CHR ''u'' then Some (Hex 4 k, st)
      else None)"
| "json_step (Hex n k) st c =
     (if is_hex c then Some (if n \<le> 1 then InString k else Hex (n - 1) k, st) else None)"
| "json_step (Literal l) st c =
     (case l of
        [] \<Rightarrow> None
      | x # xs \<Rightarrow> if c = x then Some (if xs = [] then After else Literal xs, st) else None)"
| "json_step (Number n) st c = number_step n st c"

fun json_run :: "mode \<times> frame list \<Rightarrow> string \<Rightarrow> (mode \<times> frame list) option" where
  "json_run s [] = Some s"
| "json_run (m, st) (c # cs) =
     (case json_step m st c of None \<Rightarrow> None | Some s' \<Rightarrow> json_run s' cs)"

definition json_final :: "mode \<Rightarrow> bool" where
  "json_final m =
     (m = After \<or> m = Number NZero \<or> m = Number NInt \<or> m = Number NFrac
      \<or> m = Number NExpDigits)"

definition well_formed_json :: "string \<Rightarrow> bool" where
  "well_formed_json s =
     (case json_run (Value, []) s of
        None \<Rightarrow> False
      | Some (m, st) \<Rightarrow> st = [] \<and> json_final m)"

section \<open>The primary key and a sample state\<close>

text \<open>
  The schema declares \<^verbatim>\<open>id INTEGER PRIMARY KEY AUTOINCREMENT\<close>: no two rows of the
  table share an id.
\<close>

definition primary_key :: "db \<Rightarrow> bool" where
  "primary_key d = distinct (map ID (rows d))"

text \<open>A table of two notes, used to run the operations on concrete inputs.\<close>

definition ex_note1 :: Note where
  "ex_note1 = \<lparr>ID = 1, DateCreated = 100, Image = ''10.png'', Markdown = ''old''\<rparr>"

definition ex_note2 :: Note where
  "ex_note2 = \<lparr>ID = 2, DateCreated = 200, Image = ''20.jpg'', Markdown = ''two''\<rparr>"

definition ex_db :: db where
  "ex_db = \<lparr>rows = [ex_note1, ex_note2], seq = 2\<rparr>"

text \<open>A transcription client whose endpoint answers every image with one choice.\<close>

definition ex_ai :: ai_env where
  "ex_ai = \<lparr>client_set = True, api_key = [], read_err = None,
            complete = (\<lambda>imageData. Inr [''# Notes''])\<rparr>"

text \<open>
  A request environment in which nothing fails, a state holding the sample table and the
  image of its first note only, an upload of ten bytes, and a request without failures.
\<close>

definition ex_env :: env where
  "ex_env = \<lparr>create_err = False, copy_err = None, ai = ex_ai, lookup_faults = no_faults,
             store_faults = no_faults, db_now = 300, go_now = 301\<rparr>"

definition ex_world :: world where
  "ex_world = \<lparr>database = ex_db, files = [image_path ''10.png'' \<mapsto> ''PNG'']\<rparr>"

definition ex_upload :: upload where
  "ex_upload = \<lparr>Filename = ''a.png'', Size = 10, content = ''0123456789''\<rparr>"

definition ex_request :: "string \<Rightarrow> upload option \<Rightarrow> request" where
  "ex_request i u = \<lparr>Method = ''POST'', id_value = i, parse_err = False, image_file = u\<rparr>"

text \<open>A second upload of ten bytes with another name, the same extension, other bytes.\<close>

definition ex_upload2 :: upload where
  "ex_upload2 = \<lparr>Filename = ''b.png'', Size = 10, content = ''abcdefghij''\<rparr>"

text \<open>An environment whose endpoint answers with one choice, a double quote.\<close>

definition ex_quote_env :: env where
  "ex_quote_env = ex_env\<lparr>ai := ex_ai\<lparr>complete := (\<lambda>imageData. Inr [[CHR 0x22]])\<rparr>\<rparr>"

section \<open>Properties of the notes table\<close>

lemma exec_update_no_match:
  "i \<notin> ID ` set (rows d) \<Longrightarrow> exec_update d i img markdown = (d, 0)"
proof -
  assume a: "i \<notin> ID ` set (rows d)"
  have m: "map (\<lambda>r. if ID r = i then r\<lparr>Image := img, Markdown := markdown\<rparr> else r) (rows d)
             = rows d"
    using a by (intro map_idI) auto
  have c: "filter (\<lambda>r. ID r = i) (rows d) = []"
    using a by (auto simp: filter_empty_conv)
  show ?thesis
    by (simp add: exec_update_def m c)
qed

lemma rows_exec_update:
  "rows (fst (exec_update d i img markdown)) =
     map (\<lambda>r. if ID r = i then r\<lparr>Image := img, Markdown := markdown\<rparr> else r) (rows d)"
  by (simp add: exec_update_def)

lemma seq_exec_update: "seq (fst (exec_update d i img markdown)) = seq d"
  by (simp add: exec_update_def)

lemma UpdateNote_db:
  "snd (UpdateNote f d i img markdown) = d \<or>
   snd (UpdateNote f d i img markdown) = fst (exec_update d i img markdown)"
  by (simp add: UpdateNote_def Let_def split: option.splits prod.splits)

lemma UpdateNote_Inr:
  assumes "UpdateNote f d i img markdown = (Inr n, d')"
  shows "d' = fst (exec_update d i img markdown)"
    and "find (\<lambda>r. ID r = i) (rows d') = Some n"
    and "exec_err f = None"
  using assms
  by (auto simp: UpdateNote_def GetNoteByID_def Let_def
           split: option.splits prod.splits if_splits)

lemma find_updated:
  "find (\<lambda>r. ID r = i)
     (map (\<lambda>r. if ID r = i then r\<lparr>Image := img, Markdown := markdown\<rparr> else r) rs) = Some n
   \<Longrightarrow> \<exists>r. find (\<lambda>r. ID r = i) rs = Some r \<and> n = r\<lparr>Image := img, Markdown := markdown\<rparr>"
  by (induction rs) (auto split: if_splits)

text \<open>
  C1. Updating an id that no row has changes nothing in the table and fails; when the
  driver itself reports no failure, the error is the not-found error for that id.
\<close>

theorem UpdateNote_unknown_id:
  "i \<notin> ID ` set (rows d) \<Longrightarrow>
     snd (UpdateNote f d i img markdown) = d \<and>
     (\<exists>e. fst (UpdateNote f d i img markdown) = Inl e) \<and>
     (exec_err f = None \<and> rows_affected_err f = None \<longrightarrow>
        fst (UpdateNote f d i img markdown) = Inl (NoNoteFound i))"
  by (simp add: UpdateNote_def exec_update_no_match split: option.splits)

theorem UpdateNote_unknown_id_witness:
  "3 \<notin> ID ` set (rows ex_db) \<and>
   snd (UpdateNote no_faults ex_db 3 ''30.png'' ''new'') = ex_db \<and>
   fst (UpdateNote no_faults ex_db 3 ''30.png'' ''new'') = Inl (NoNoteFound 3)"
  using UpdateNote_unknown_id [of 3 ex_db no_faults "''30.png''" "''new''"]
  by (simp add: ex_db_def ex_note1_def ex_note2_def no_faults_def)

text \<open>
  C8. After a successful update of id \<open>i\<close> the table has the same rows in the same
  places with the same ids and creation timestamps; a row with another id is untouched, a
  row with id \<open>i\<close> differs from its old value in image and markdown only; the note
  returned carries the new image and markdown and the creation timestamp the row had.
\<close>

theorem UpdateNote_frame:
  "UpdateNote f d i img markdown = (Inr n, d') \<Longrightarrow>
     length (rows d') = length (rows d) \<and> seq d' = seq d \<and>
     (\<forall>k < length (rows d).
        ID (rows d' ! k) = ID (rows d ! k) \<and>
        DateCreated (rows d' ! k) = DateCreated (rows d ! k) \<and>
        (ID (rows d ! k) \<noteq> i \<longrightarrow> rows d' ! k = rows d ! k) \<and>
        (ID (rows d ! k) = i \<longrightarrow>
           rows d' ! k = (rows d ! k)\<lparr>Image := img, Markdown := markdown\<rparr>)) \<and>
     ID n = i \<and> Image n = img \<and> Markdown n = markdown \<and>
     (\<exists>r \<in> set (rows d). ID r = i \<and> DateCreated n = DateCreated r)"
proof -
  assume u: "UpdateNote f d i img markdown = (Inr n, d')"
  have d': "rows d' = map (\<lambda>r. if ID r = i then r\<lparr>Image := img, Markdown := markdown\<rparr> else r) (rows d)"
    and s: "seq d' = seq d"
    using UpdateNote_Inr(1) [OF u] by (simp_all add: rows_exec_update seq_exec_update)
  from UpdateNote_Inr(2) [OF u] d'
  obtain r where r: "find (\<lambda>r. ID r = i) (rows d) = Some r"
    and n: "n = r\<lparr>Image := img, Markdown := markdown\<rparr>"
    using find_updated by fastforce
  from r have rin: "r \<in> set (rows d)" and rid: "ID r = i"
    by (auto simp: find_Some_iff)
  show ?thesis
    using d' s n rin rid by auto
qed

theorem UpdateNote_frame_witness:
  "\<exists>n d'. UpdateNote no_faults ex_db 1 ''11.png'' ''new'' = (Inr n, d') \<and>
     DateCreated n = 100 \<and> rows d' ! 1 = ex_note2 \<and> DateCreated (rows d' ! 0) = 100"
proof -
  have u: "UpdateNote no_faults ex_db 1 ''11.png'' ''new'' =
      (Inr (ex_note1\<lparr>Image := ''11.png'', Markdown := ''new''\<rparr>),
       ex_db\<lparr>rows := [ex_note1\<lparr>Image := ''11.png'', Markdown := ''new''\<rparr>, ex_note2]\<rparr>)"
    by (simp add: UpdateNote_def exec_update_def GetNoteByID_def no_faults_def ex_db_def
        ex_note1_def ex_note2_def)
  show ?thesis
    using UpdateNote_frame [OF u] u
    by (simp add: ex_db_def ex_note1_def ex_note2_def)
qed

section \<open>Listing the notes\<close>

lemma scan_rows_Inr: "scan_rows f rs acc = Inr ns \<Longrightarrow> ns = acc @ rs"
proof (induction rs arbitrary: acc)
  case Nil
  then show ?case by simp
next
  case (Cons r rs)
  from Cons.prems have "scan_rows f rs (acc @ [r]) = Inr ns"
    by (simp split: option.splits)
  then have "ns = (acc @ [r]) @ rs"
    by (rule Cons.IH)
  then show ?case by simp
qed

lemma scan_rows_total: "scan_err f = None \<Longrightarrow> scan_rows f rs acc = Inr (acc @ rs)"
  by (induction rs arbitrary: acc) auto

lemma query_all_sorted:
  "sorted_wrt (\<lambda>a b. DateCreated b \<le> DateCreated a) (query_all d)"
proof -
  have "sorted (map (\<lambda>r. - DateCreated r) (query_all d))"
    unfolding query_all_def by (rule sorted_sort_key)
  then show ?thesis
    by (simp add: sorted_map)
qed

lemma mset_query_all: "mset (query_all d) = mset (rows d)"
  by (simp add: query_all_def)

text \<open>
  C7. Whatever the table holds, a listing that succeeds returns exactly its rows, each as
  often as it is stored, with creation timestamps in descending order; and the listing
  succeeds whenever the driver reports no failure.
\<close>

theorem GetAllNotes_descending:
  "(GetAllNotes f d = Inr ns \<longrightarrow>
      sorted_wrt (\<lambda>a b. DateCreated b \<le> DateCreated a) ns \<and> mset ns = mset (rows d)) \<and>
   (query_err f = None \<and> scan_err f = None \<and> rows_err f = None \<longrightarrow>
      (\<exists>ns. GetAllNotes f d = Inr ns))"
proof (intro conjI impI)
  assume g: "GetAllNotes f d = Inr ns"
  then have "scan_rows f (query_all d) [] = Inr ns"
    by (auto simp: GetAllNotes_def split: option.splits sum.splits)
  then have ns: "ns = query_all d"
    using scan_rows_Inr by fastforce
  show "sorted_wrt (\<lambda>a b. DateCreated b \<le> DateCreated a) ns"
    unfolding ns by (rule query_all_sorted)
  show "mset ns = mset (rows d)"
    unfolding ns by (rule mset_query_all)
next
  assume "query_err f = None \<and> scan_err f = None \<and> rows_err f = None"
  then show "\<exists>ns. GetAllNotes f d = Inr ns"
    by (simp add: GetAllNotes_def scan_rows_total)
qed

theorem GetAllNotes_descending_witness:
  "GetAllNotes no_faults ex_db = Inr [ex_note2, ex_note1] \<and>
   sorted_wrt (\<lambda>a b. DateCreated b \<le> DateCreated a) [ex_note2, ex_note1] \<and>
   mset [ex_note2, ex_note1] = mset (rows ex_db)"
proof -
  have g: "GetAllNotes no_faults ex_db = Inr [ex_note2, ex_note1]"
    by (simp add: GetAllNotes_def query_all_def no_faults_def ex_db_def ex_note1_def
        ex_note2_def)
  have n: "query_err no_faults = None \<and> scan_err no_faults = None \<and> rows_err no_faults = None"
    by (simp add: no_faults_def)
  show ?thesis
    using GetAllNotes_descending [of no_faults ex_db "[ex_note2, ex_note1]"] g n
    by simp
qed

section \<open>The transcription client\<close>

text \<open>
  C9. When the endpoint answers with no choice the client never returns a text; it
  returns the error \<open>NoChoices\<close>, and it returns that error in no other case. The
  empty text is returned only when the first choice of the answer is itself empty.
\<close>

theorem ConvertImageToMarkdown_empty_choices:
  "(fs p = Some imageData \<and> complete a imageData = Inr [] \<longrightarrow>
      (\<forall>md. ConvertImageToMarkdown a fs p \<noteq> Inr md)) \<and>
   (ConvertImageToMarkdown a fs p = Inl NoChoices \<longleftrightarrow>
      (client_set a \<or> api_key a \<noteq> []) \<and> read_err a = None \<and>
      (\<exists>imageData. fs p = Some imageData \<and> complete a imageData = Inr [])) \<and>
   (ConvertImageToMarkdown a fs p = Inr [] \<longrightarrow>
      (\<exists>imageData rest. fs p = Some imageData \<and> complete a imageData = Inr ([] # rest)))"
  by (auto simp: ConvertImageToMarkdown_def split: option.splits sum.splits list.splits)

theorem ConvertImageToMarkdown_empty_choices_witness:
  "ConvertImageToMarkdown (ex_ai\<lparr>complete := (\<lambda>d. Inr [])\<rparr>) [''images/10.png'' \<mapsto> ''PNG'']
     ''images/10.png'' = Inl NoChoices \<and>
   ConvertImageToMarkdown (ex_ai\<lparr>complete := (\<lambda>d. Inr [[], ''x''])\<rparr>)
     [''images/10.png'' \<mapsto> ''PNG''] ''images/10.png'' = Inr []"
  using ConvertImageToMarkdown_empty_choices
          [of "[''images/10.png'' \<mapsto> ''PNG'']" "''images/10.png''" "''PNG''"
              "ex_ai\<lparr>complete := (\<lambda>d. Inr [])\<rparr>"]
  by (simp add: ex_ai_def ConvertImageToMarkdown_def)

section \<open>The handlers\<close>

lemma Atoi_Nil: "Atoi [] = None"
  by (simp add: Atoi_def)

lemma Atoi_7: "Atoi ''7'' = Some 7"
  by (simp add: Atoi_def is_digit_def digits_value_def)

lemma Atoi_2: "Atoi ''2'' = Some 2"
  by (simp add: Atoi_def is_digit_def digits_value_def)

lemma stored_filename_ex: "stored_filename ex_upload = ''10.png''"
  by code_simp

lemma save_image_True:
  "save_image e header fs = (True, fs') \<Longrightarrow>
     fs' = fs(image_path (stored_filename header) \<mapsto> content header)"
  by (auto simp: save_image_def Let_def split: if_splits option.splits)

lemma http_Error_status: "status (http_Error msg code) = code"
  by (simp add: http_Error_def)

lemma success_status: "status (success_response note) = 200"
  by (simp add: success_response_def)

text \<open>
  C3. In the add-note handler, a request whose transcription fails is answered with
  status 500 and leaves the table as it was; so does, in particular, every well-formed
  request whose image the endpoint answers with no choice. The table changes only in a
  request whose image was saved and transcribed with success.
\<close>

theorem AddNoteHandler_transcription_failure:
  "AddNoteHandler e w r = (resp, w') \<Longrightarrow>
     (\<forall>header fs err.
        Method r = ''POST'' \<and> \<not> parse_err r \<and> image_file r = Some header \<and>
        save_image e header (files w) = (True, fs) \<and>
        ConvertImageToMarkdown (ai e) fs (image_path (stored_filename header)) = Inl err
        \<longrightarrow> status resp = 500 \<and> database w' = database w) \<and>
     (\<forall>header.
        Method r = ''POST'' \<and> \<not> parse_err r \<and> image_file r = Some header \<and>
        complete (ai e) (content header) = Inr []
        \<longrightarrow> status resp = 500 \<and> database w' = database w) \<and>
     (database w' \<noteq> database w \<longrightarrow>
        (\<exists>header fs md.
           image_file r = Some header \<and> save_image e header (files w) = (True, fs) \<and>
           ConvertImageToMarkdown (ai e) fs (image_path (stored_filename header)) = Inr md))"
proof (intro conjI allI impI)
  fix header fs err
  assume h: "AddNoteHandler e w r = (resp, w')"
    and a: "Method r = ''POST'' \<and> \<not> parse_err r \<and> image_file r = Some header \<and>
        save_image e header (files w) = (True, fs) \<and>
        ConvertImageToMarkdown (ai e) fs (image_path (stored_filename header)) = Inl err"
  from a h have "resp = http_Error ''Failed to convert image to markdown'' 500"
    and "w' = w\<lparr>files := fs\<rparr>"
    by (simp_all add: AddNoteHandler_def Let_def)
  then show "status resp = 500" and "database w' = database w"
    by (simp_all add: http_Error_status)
next
  fix header
  assume h: "AddNoteHandler e w r = (resp, w')"
    and a: "Method r = ''POST'' \<and> \<not> parse_err r \<and> image_file r = Some header \<and>
        complete (ai e) (content header) = Inr []"
  obtain saved fs where s: "save_image e header (files w) = (saved, fs)"
    by (cases "save_image e header (files w)")
  show "status resp = 500"
  proof (cases saved)
    case True
    with s have "save_image e header (files w) = (True, fs)"
      by simp
    then have fs: "fs = (files w)(image_path (stored_filename header) \<mapsto> content header)"
      by (rule save_image_True)
    have "\<exists>err. ConvertImageToMarkdown (ai e) fs (image_path (stored_filename header)) = Inl err"
      using a by (simp add: fs ConvertImageToMarkdown_def split: option.splits)
    then show ?thesis
      using a h s True by (auto simp: AddNoteHandler_def Let_def http_Error_status)
  next
    case False
    then show ?thesis
      using a h s by (auto simp: AddNoteHandler_def Let_def http_Error_status)
  qed
  show "database w' = database w"
  proof (cases saved)
    case True
    with s have "save_image e header (files w) = (True, fs)"
      by simp
    then have fs: "fs = (files w)(image_path (stored_filename header) \<mapsto> content header)"
      by (rule save_image_True)
    have "\<exists>err. ConvertImageToMarkdown (ai e) fs (image_path (stored_filename header)) = Inl err"
      using a by (simp add: fs ConvertImageToMarkdown_def split: option.splits)
    then show ?thesis
      using a h s True by (auto simp: AddNoteHandler_def Let_def)
  next
    case False
    then show ?thesis
      using a h s by (auto simp: AddNoteHandler_def Let_def)
  qed
next
  assume h: "AddNoteHandler e w r = (resp, w')" and c: "database w' \<noteq> database w"
  then show "\<exists>header fs md.
           image_file r = Some header \<and> save_image e header (files w) = (True, fs) \<and>
           ConvertImageToMarkdown (ai e) fs (image_path (stored_filename header)) = Inr md"
    by (auto simp: AddNoteHandler_def Let_def
             split: if_splits option.splits prod.splits sum.splits)
qed

theorem AddNoteHandler_transcription_failure_witness:
  "status (fst (AddNoteHandler (ex_env\<lparr>ai := ex_ai\<lparr>complete := (\<lambda>d. Inr [])\<rparr>\<rparr>) ex_world
                  (ex_request [] (Some ex_upload)))) = 500 \<and>
   database (snd (AddNoteHandler (ex_env\<lparr>ai := ex_ai\<lparr>complete := (\<lambda>d. Inr [])\<rparr>\<rparr>) ex_world
                  (ex_request [] (Some ex_upload)))) = ex_db"
proof -
  let ?e = "ex_env\<lparr>ai := ex_ai\<lparr>complete := (\<lambda>d. Inr [])\<rparr>\<rparr>"
  let ?r = "ex_request [] (Some ex_upload)"
  have p: "Method ?r = ''POST'' \<and> \<not> parse_err ?r \<and> image_file ?r = Some ex_upload \<and>
        complete (ai ?e) (content ex_upload) = Inr []"
    by (simp add: ex_request_def ex_env_def ex_ai_def)
  have d: "database ex_world = ex_db"
    by (simp add: ex_world_def)
  show ?thesis
    using AddNoteHandler_transcription_failure
            [of ?e ex_world ?r "fst (AddNoteHandler ?e ex_world ?r)"
                "snd (AddNoteHandler ?e ex_world ?r)"] p d
    by auto
qed

section \<open>Regenerating a note\<close>

lemma Atoi_1: "Atoi ''1'' = Some 1"
  by (simp add: Atoi_def is_digit_def digits_value_def)

lemma GetNoteByID_Inr:
  "GetNoteByID f d i = Inr note \<Longrightarrow> find (\<lambda>r. ID r = i) (rows d) = Some note"
  by (simp add: GetNoteByID_def split: option.splits)

lemma GetNoteByID_unknown:
  "i \<notin> ID ` set (rows d) \<Longrightarrow> \<exists>err. GetNoteByID f d i = Inl err"
proof -
  assume "i \<notin> ID ` set (rows d)"
  then have "find (\<lambda>r. ID r = i) (rows d) = None"
    by (auto simp: find_None_iff)
  then show ?thesis
    by (simp add: GetNoteByID_def split: option.splits)
qed

lemma find_unique:
  "distinct (map ID rs) \<Longrightarrow> find (\<lambda>r. ID r = i) rs = Some n \<Longrightarrow> r \<in> set rs \<Longrightarrow> ID r = i
   \<Longrightarrow> r = n"
  by (induction rs) (auto split: if_splits)

lemma le_fold_max: "(a::int) \<le> fold max xs a"
proof (induction xs arbitrary: a)
  case Nil
  show ?case by simp
next
  case (Cons x xs)
  have "a \<le> max x a" by simp
  also have "max x a \<le> fold max xs (max x a)" by (rule Cons.IH)
  finally show ?case by simp
qed

lemma mem_le_fold_max: "x \<in> set xs \<Longrightarrow> (x::int) \<le> fold max xs a"
proof (induction xs arbitrary: a)
  case Nil
  then show ?case by simp
next
  case (Cons y ys)
  show ?case
  proof (cases "x = y")
    case True
    have "x \<le> max y a" using True by simp
    also have "max y a \<le> fold max ys (max y a)" by (rule le_fold_max)
    finally show ?thesis by simp
  next
    case False
    with Cons.prems have "x \<in> set ys" by simp
    then have "x \<le> fold max ys (max y a)" by (rule Cons.IH)
    then show ?thesis by simp
  qed
qed

lemma primary_key_AddNote:
  "primary_key d \<Longrightarrow> primary_key (snd (AddNote f t1 t2 d img markdown))"
proof -
  assume pk: "primary_key d"
  have "fold max (map ID (rows d)) (seq d) + 1 \<notin> set (map ID (rows d))"
  proof
    assume "fold max (map ID (rows d)) (seq d) + 1 \<in> set (map ID (rows d))"
    then have "fold max (map ID (rows d)) (seq d) + 1 \<le> fold max (map ID (rows d)) (seq d)"
      by (rule mem_le_fold_max)
    then show False by simp
  qed
  then show ?thesis
    using pk by (auto simp: AddNote_def primary_key_def Let_def split: option.splits)
qed

lemma map_ID_exec_update: "map ID (rows (fst (exec_update d i img markdown))) = map ID (rows d)"
  by (simp add: exec_update_def comp_def if_distrib cong: if_cong)

lemma primary_key_UpdateNote:
  "primary_key d \<Longrightarrow> primary_key (snd (UpdateNote f d i img markdown))"
  using UpdateNote_db [of f d i img markdown]
  by (auto simp: primary_key_def map_ID_exec_update)

lemma RegenerateNoteHandler_success:
  "RegenerateNoteHandler e w r = (resp, w') \<Longrightarrow> status resp = 200 \<Longrightarrow>
     \<exists>i note md n d'.
       Atoi (id_value r) = Some i \<and>
       GetNoteByID (lookup_faults e) (database w) i = Inr note \<and>
       ConvertImageToMarkdown (ai e) (files w) (image_path (Image note)) = Inr md \<and>
       UpdateNote (store_faults e) (database w) i (Image note) md = (Inr n, d') \<and>
       w' = w\<lparr>database := d'\<rparr> \<and> resp = success_response n"
  by (auto simp: RegenerateNoteHandler_def Let_def http_Error_status
           split: if_splits option.splits sum.splits prod.splits)

text \<open>
  C4. A regenerate request answered with status 200, on a table whose ids are unique,
  leaves the image directory as it was and every row in its place with its id, its
  creation timestamp and its image; rows with another id are untouched, and the row of
  the requested id differs from its old value in the markdown only.
\<close>

theorem RegenerateNoteHandler_frame:
  "RegenerateNoteHandler e w r = (resp, w') \<Longrightarrow> status resp = 200 \<Longrightarrow>
   primary_key (database w) \<Longrightarrow>
     files w' = files w \<and>
     length (rows (database w')) = length (rows (database w)) \<and>
     seq (database w') = seq (database w) \<and>
     (\<exists>i md.
        Atoi (id_value r) = Some i \<and>
        (\<forall>k < length (rows (database w)).
           Image (rows (database w') ! k) = Image (rows (database w) ! k) \<and>
           ID (rows (database w') ! k) = ID (rows (database w) ! k) \<and>
           DateCreated (rows (database w') ! k) = DateCreated (rows (database w) ! k) \<and>
           (ID (rows (database w) ! k) \<noteq> i \<longrightarrow>
              rows (database w') ! k = rows (database w) ! k) \<and>
           (ID (rows (database w) ! k) = i \<longrightarrow>
              rows (database w') ! k = (rows (database w) ! k)\<lparr>Markdown := md\<rparr>)))"
proof -
  assume h: "RegenerateNoteHandler e w r = (resp, w')" and ok: "status resp = 200"
    and pk: "primary_key (database w)"
  from RegenerateNoteHandler_success [OF h ok]
  obtain i nt md n d' where i: "Atoi (id_value r) = Some i"
    and g: "GetNoteByID (lookup_faults e) (database w) i = Inr nt"
    and u: "UpdateNote (store_faults e) (database w) i (Image nt) md = (Inr n, d')"
    and w': "w' = w\<lparr>database := d'\<rparr>"
    by blast
  let ?rs = "rows (database w)"
  have d': "d' = fst (exec_update (database w) i (Image nt) md)"
    using UpdateNote_Inr(1) [OF u] .
  have rows': "rows d' = map (\<lambda>r. if ID r = i then r\<lparr>Image := Image nt, Markdown := md\<rparr>
                                    else r) ?rs"
    by (simp add: d' rows_exec_update)
  have f: "find (\<lambda>r. ID r = i) ?rs = Some nt"
    using g by (rule GetNoteByID_Inr)
  have same: "ID (?rs ! k) = i \<Longrightarrow> ?rs ! k = nt" if "k < length ?rs" for k
    using find_unique [OF pk [unfolded primary_key_def] f, of "?rs ! k"] that by simp
  have row: "Image (rows d' ! k) = Image (?rs ! k) \<and>
             ID (rows d' ! k) = ID (?rs ! k) \<and>
             DateCreated (rows d' ! k) = DateCreated (?rs ! k) \<and>
             (ID (?rs ! k) \<noteq> i \<longrightarrow> rows d' ! k = ?rs ! k) \<and>
             (ID (?rs ! k) = i \<longrightarrow> rows d' ! k = (?rs ! k)\<lparr>Markdown := md\<rparr>)"
    if k: "k < length ?rs" for k
  proof (cases "ID (?rs ! k) = i")
    case True
    then have "?rs ! k = nt" using same [OF k] by simp
    then show ?thesis using k True by (simp add: rows')
  next
    case False
    then show ?thesis using k by (simp add: rows')
  qed
  have "files w' = files w"
    by (simp add: w')
  moreover have "length (rows (database w')) = length ?rs"
    by (simp add: w' rows')
  moreover have "seq (database w') = seq (database w)"
    by (simp add: w' d' seq_exec_update)
  moreover have "\<forall>k < length ?rs.
           Image (rows (database w') ! k) = Image (?rs ! k) \<and>
           ID (rows (database w') ! k) = ID (?rs ! k) \<and>
           DateCreated (rows (database w') ! k) = DateCreated (?rs ! k) \<and>
           (ID (?rs ! k) \<noteq> i \<longrightarrow> rows (database w') ! k = ?rs ! k) \<and>
           (ID (?rs ! k) = i \<longrightarrow> rows (database w') ! k = (?rs ! k)\<lparr>Markdown := md\<rparr>)"
    using row by (simp add: w')
  ultimately show ?thesis
    using i by blast
qed

lemma ex_regenerate:
  "RegenerateNoteHandler ex_env ex_world (ex_request ''1'' None) =
     (success_response (ex_note1\<lparr>Markdown := ''# Notes''\<rparr>),
      ex_world\<lparr>database := ex_db\<lparr>rows := [ex_note1\<lparr>Markdown := ''# Notes''\<rparr>, ex_note2]\<rparr>\<rparr>)"
  by (simp add: RegenerateNoteHandler_def Atoi_1 ex_request_def ex_env_def ex_world_def
      ex_db_def ex_note1_def ex_note2_def ex_ai_def no_faults_def GetNoteByID_def
      ConvertImageToMarkdown_def UpdateNote_def exec_update_def image_path_def)

theorem RegenerateNoteHandler_frame_witness:
  "status (fst (RegenerateNoteHandler ex_env ex_world (ex_request ''1'' None))) = 200 \<and>
   primary_key (database ex_world) \<and>
   files (snd (RegenerateNoteHandler ex_env ex_world (ex_request ''1'' None))) = files ex_world \<and>
   Image (rows (database (snd (RegenerateNoteHandler ex_env ex_world (ex_request ''1'' None)))) ! 0)
     = ''10.png''"
proof -
  have pk: "primary_key (database ex_world)"
    by (simp add: primary_key_def ex_world_def ex_db_def ex_note1_def ex_note2_def)
  have ok: "status (success_response (ex_note1\<lparr>Markdown := ''# Notes''\<rparr>)) = 200"
    by (rule success_status)
  have st: "status (fst (RegenerateNoteHandler ex_env ex_world (ex_request ''1'' None))) = 200"
    by (simp add: ex_regenerate success_status)
  have fl: "files (snd (RegenerateNoteHandler ex_env ex_world (ex_request ''1'' None)))
              = files ex_world"
    using RegenerateNoteHandler_frame [OF ex_regenerate ok pk]
    by (simp add: ex_regenerate)
  have im: "Image (rows (database (snd (RegenerateNoteHandler ex_env ex_world
              (ex_request ''1'' None)))) ! 0) = ''10.png''"
    by (simp add: ex_regenerate ex_note1_def)
  from st pk fl im show ?thesis
    by blast
qed

text \<open>
  C5. A regenerate request for a note that exists, whose image file is absent from the
  image directory, is answered with status 404 and changes neither the table nor the
  directory; the answer does not depend on the transcription client, which is not reached.
\<close>

theorem RegenerateNoteHandler_missing_image:
  "Method r = ''POST'' \<Longrightarrow> Atoi (id_value r) = Some i \<Longrightarrow> \<not> parse_err r \<Longrightarrow>
   GetNoteByID (lookup_faults e) (database w) i = Inr nt \<Longrightarrow>
   files w (image_path (Image nt)) = None \<Longrightarrow>
     status (fst (RegenerateNoteHandler e w r)) = 404 \<and>
     snd (RegenerateNoteHandler e w r) = w \<and>
     (\<forall>a. RegenerateNoteHandler (e\<lparr>ai := a\<rparr>) w r = RegenerateNoteHandler e w r)"
proof -
  assume m: "Method r = ''POST''" and i: "Atoi (id_value r) = Some i" and p: "\<not> parse_err r"
    and g: "GetNoteByID (lookup_faults e) (database w) i = Inr nt"
    and f: "files w (image_path (Image nt)) = None"
  from i have n: "id_value r \<noteq> []"
    using Atoi_Nil by auto
  have "RegenerateNoteHandler e' w r = (http_Error ''Image file not found'' 404, w)"
    if "lookup_faults e' = lookup_faults e" for e'
    using m i p g f n that by (simp add: RegenerateNoteHandler_def)
  then show ?thesis
    by (simp add: http_Error_status)
qed

theorem RegenerateNoteHandler_missing_image_witness:
  "GetNoteByID (lookup_faults ex_env) (database ex_world) 2 = Inr ex_note2 \<and>
   files ex_world (image_path (Image ex_note2)) = None \<and>
   status (fst (RegenerateNoteHandler ex_env ex_world (ex_request ''2'' None))) = 404 \<and>
   snd (RegenerateNoteHandler ex_env ex_world (ex_request ''2'' None)) = ex_world"
proof -
  have g: "GetNoteByID (lookup_faults ex_env) (database ex_world) 2 = Inr ex_note2"
    by (simp add: GetNoteByID_def ex_env_def no_faults_def ex_world_def ex_db_def ex_note1_def
        ex_note2_def)
  have f: "files ex_world (image_path (Image ex_note2)) = None"
    by (simp add: ex_world_def ex_note2_def image_path_def)
  have m: "Method (ex_request ''2'' None) = ''POST''"
    and i: "Atoi (id_value (ex_request ''2'' None)) = Some 2"
    and p: "\<not> parse_err (ex_request ''2'' None)"
    by (simp_all add: ex_request_def Atoi_2)
  from RegenerateNoteHandler_missing_image [OF m i p g f] g f show ?thesis
    by blast
qed

section \<open>Requests for an id that no note has\<close>

lemma UpdateNote_unknown_Inl:
  "i \<notin> ID ` set (rows d) \<Longrightarrow> \<exists>err. UpdateNote f d i img markdown = (Inl err, d)"
  by (auto simp: UpdateNote_def exec_update_no_match split: option.splits)

lemma content_ex: "content ex_upload = ''0123456789''"
  by (simp add: ex_upload_def)

lemma ex_update_unknown:
  "UpdateNoteHandler ex_env ex_world (ex_request ''7'' (Some ex_upload)) =
     (http_Error ''Failed to update database'' 500,
      ex_world\<lparr>files := (files ex_world)(''images/10.png'' \<mapsto> ''0123456789'')\<rparr>)"
  by (simp add: UpdateNoteHandler_def Atoi_7 ex_request_def stored_filename_ex image_path_def
      save_image_def ex_env_def ex_ai_def ConvertImageToMarkdown_def content_ex
      UpdateNote_def exec_update_def no_faults_def ex_world_def ex_db_def ex_note1_def
      ex_note2_def Let_def)

text \<open>
  C2, as stated, fails for the update handler: a well-formed request for the id 7, which
  no note has, reaches \<open>UpdateNote\<close>, which reports that no note was found, and the
  handler answers with status 500.
\<close>

theorem UpdateNoteHandler_unknown_id_counterexample:
  "Method (ex_request ''7'' (Some ex_upload)) = ''POST'' \<and>
   Atoi (id_value (ex_request ''7'' (Some ex_upload))) = Some 7 \<and>
   7 \<notin> ID ` set (rows (database ex_world)) \<and>
   fst (UpdateNote no_faults (database ex_world) 7 ''10.png'' ''# Notes'') = Inl (NoNoteFound 7) \<and>
   status (fst (UpdateNoteHandler ex_env ex_world (ex_request ''7'' (Some ex_upload)))) = 500 \<and>
   status (fst (UpdateNoteHandler ex_env ex_world (ex_request ''7'' (Some ex_upload)))) \<noteq> 404"
proof -
  have "Method (ex_request ''7'' (Some ex_upload)) = ''POST''"
    by (simp add: ex_request_def)
  moreover have "Atoi (id_value (ex_request ''7'' (Some ex_upload))) = Some 7"
    by (simp add: ex_request_def Atoi_7)
  moreover have "7 \<notin> ID ` set (rows (database ex_world))"
    by (simp add: ex_world_def ex_db_def ex_note1_def ex_note2_def)
  moreover have "fst (UpdateNote no_faults (database ex_world) 7 ''10.png'' ''# Notes'')
                   = Inl (NoNoteFound 7)"
    by (simp add: ex_world_def ex_db_def ex_note1_def ex_note2_def UpdateNote_def
        exec_update_def no_faults_def)
  moreover have "status (fst (UpdateNoteHandler ex_env ex_world
                   (ex_request ''7'' (Some ex_upload)))) = 500"
    by (simp add: ex_update_unknown http_Error_status)
  ultimately show ?thesis
    by simp
qed

text \<open>
  C2, amended. For a well-formed id that no note has, the regenerate handler answers a
  request whose form parses with status 404 and changes nothing. The update handler
  answers with 400 or 500, never with 404; when the form parses and the upload is saved
  and transcribed, it answers with 500 and leaves the table as it was.
\<close>

theorem unknown_id_status:
  "Method r = ''POST'' \<Longrightarrow> Atoi (id_value r) = Some i \<Longrightarrow>
   i \<notin> ID ` set (rows (database w)) \<Longrightarrow>
     (\<not> parse_err r \<longrightarrow>
        status (fst (RegenerateNoteHandler e w r)) = 404 \<and>
        snd (RegenerateNoteHandler e w r) = w) \<and>
     (status (fst (UpdateNoteHandler e w r)) = 400 \<or>
      status (fst (UpdateNoteHandler e w r)) = 500) \<and>
     (\<forall>header fs md.
        \<not> parse_err r \<and> image_file r = Some header \<and>
        save_image e header (files w) = (True, fs) \<and>
        ConvertImageToMarkdown (ai e) fs (image_path (stored_filename header)) = Inr md
        \<longrightarrow> status (fst (UpdateNoteHandler e w r)) = 500 \<and>
            database (snd (UpdateNoteHandler e w r)) = database w)"
proof -
  assume m: "Method r = ''POST''" and i: "Atoi (id_value r) = Some i"
    and u: "i \<notin> ID ` set (rows (database w))"
  from i have n: "id_value r \<noteq> []"
    using Atoi_Nil by auto
  obtain err where g: "GetNoteByID (lookup_faults e) (database w) i = Inl err"
    using GetNoteByID_unknown [OF u] by blast
  have reg: "\<not> parse_err r \<longrightarrow>
        status (fst (RegenerateNoteHandler e w r)) = 404 \<and>
        snd (RegenerateNoteHandler e w r) = w"
    using m i n g by (simp add: RegenerateNoteHandler_def http_Error_status)
  have upd: "\<And>img md. \<exists>err. UpdateNote (store_faults e) (database w) i img md
                 = (Inl err, database w)"
    using UpdateNote_unknown_Inl [OF u] by blast
  have any: "status (fst (UpdateNoteHandler e w r)) = 400 \<or>
      status (fst (UpdateNoteHandler e w r)) = 500"
  proof (cases "image_file r")
    case None
    then show ?thesis
      using m i n by (simp add: UpdateNoteHandler_def http_Error_status)
  next
    case (Some header)
    obtain saved fs where s: "save_image e header (files w) = (saved, fs)"
      by (cases "save_image e header (files w)")
    obtain err' where "UpdateNote (store_faults e) (database w) i (stored_filename header)
        (case ConvertImageToMarkdown (ai e) fs (image_path (stored_filename header)) of
           Inr md \<Rightarrow> md | Inl _ \<Rightarrow> []) = (Inl err', database w)"
      using upd by blast
    then show ?thesis
      using m i n Some s
      by (auto simp: UpdateNoteHandler_def Let_def http_Error_status split: sum.splits)
  qed
  have reach: "\<forall>header fs md.
        \<not> parse_err r \<and> image_file r = Some header \<and>
        save_image e header (files w) = (True, fs) \<and>
        ConvertImageToMarkdown (ai e) fs (image_path (stored_filename header)) = Inr md
        \<longrightarrow> status (fst (UpdateNoteHandler e w r)) = 500 \<and>
            database (snd (UpdateNoteHandler e w r)) = database w"
  proof (intro allI impI)
    fix header fs md
    assume a: "\<not> parse_err r \<and> image_file r = Some header \<and>
        save_image e header (files w) = (True, fs) \<and>
        ConvertImageToMarkdown (ai e) fs (image_path (stored_filename header)) = Inr md"
    obtain err' where "UpdateNote (store_faults e) (database w) i (stored_filename header) md
        = (Inl err', database w)"
      using upd by blast
    then show "status (fst (UpdateNoteHandler e w r)) = 500 \<and>
            database (snd (UpdateNoteHandler e w r)) = database w"
      using m i n a by (simp add: UpdateNoteHandler_def Let_def http_Error_status)
  qed
  from reg any reach show ?thesis
    by blast
qed

theorem unknown_id_status_witness:
  "status (fst (RegenerateNoteHandler ex_env ex_world (ex_request ''7'' (Some ex_upload)))) = 404 \<and>
   status (fst (UpdateNoteHandler ex_env ex_world (ex_request ''7'' (Some ex_upload)))) = 500"
proof -
  have m: "Method (ex_request ''7'' (Some ex_upload)) = ''POST''"
    and i: "Atoi (id_value (ex_request ''7'' (Some ex_upload))) = Some 7"
    and p: "\<not> parse_err (ex_request ''7'' (Some ex_upload))"
    by (simp_all add: ex_request_def Atoi_7)
  have u: "7 \<notin> ID ` set (rows (database ex_world))"
    by (simp add: ex_world_def ex_db_def ex_note1_def ex_note2_def)
  have "status (fst (RegenerateNoteHandler ex_env ex_world (ex_request ''7'' (Some ex_upload))))
          = 404"
    using unknown_id_status [OF m i u, of ex_env] p by blast
  then show ?thesis
    by (simp add: ex_update_unknown http_Error_status)
qed

section \<open>The name of a stored image\<close>

lemma AddNoteHandler_success:
  "AddNoteHandler e w r = (resp, w') \<Longrightarrow> status resp = 200 \<Longrightarrow>
     \<exists>header md n d.
       image_file r = Some header \<and>
       ConvertImageToMarkdown (ai e)
         ((files w)(image_path (stored_filename header) \<mapsto> content header))
         (image_path (stored_filename header)) = Inr md \<and>
       AddNote (store_faults e) (db_now e) (go_now e) (database w) (stored_filename header) md
         = (Inr n, d) \<and>
       w' = w\<lparr>files := (files w)(image_path (stored_filename header) \<mapsto> content header),
              database := d\<rparr> \<and>
       resp = success_response n"
  by (auto simp: AddNoteHandler_def Let_def http_Error_status save_image_def
           split: if_splits option.splits sum.splits prod.splits)

lemma UpdateNoteHandler_success:
  "UpdateNoteHandler e w r = (resp, w') \<Longrightarrow> status resp = 200 \<Longrightarrow>
     \<exists>i header md n d.
       Atoi (id_value r) = Some i \<and> image_file r = Some header \<and>
       ConvertImageToMarkdown (ai e)
         ((files w)(image_path (stored_filename header) \<mapsto> content header))
         (image_path (stored_filename header)) = Inr md \<and>
       UpdateNote (store_faults e) (database w) i (stored_filename header) md = (Inr n, d) \<and>
       w' = w\<lparr>files := (files w)(image_path (stored_filename header) \<mapsto> content header),
              database := d\<rparr> \<and>
       resp = success_response n"
  by (auto simp: UpdateNoteHandler_def Let_def http_Error_status save_image_def
           split: if_splits option.splits sum.splits prod.splits)

lemma upload_success_files:
  assumes "H = AddNoteHandler \<or> H = UpdateNoteHandler"
    and "H e w r = (resp, w')" and "status resp = 200" and "image_file r = Some header"
  shows "files w' = (files w)(image_path (stored_filename header) \<mapsto> content header)"
proof -
  from assms(1) show ?thesis
  proof
    assume "H = AddNoteHandler"
    with assms(2) have "AddNoteHandler e w r = (resp, w')" by simp
    from AddNoteHandler_success [OF this assms(3)] assms(4) show ?thesis by auto
  next
    assume "H = UpdateNoteHandler"
    with assms(2) have "UpdateNoteHandler e w r = (resp, w')" by simp
    from UpdateNoteHandler_success [OF this assms(3)] assms(4) show ?thesis by auto
  qed
qed

text \<open>
  C6. The stored name is the decimal size followed by the extension of the original name,
  so uploads that agree on size and extension get the same name. When two such uploads
  are handled with success one after the other, by either upload handler, the file under
  that name holds the first upload's bytes after the first request and the second
  upload's bytes after the second, whatever the bytes are.
\<close>

theorem stored_filename_collision:
  "stored_filename h = fmt_d (Size h) @ Ext (Filename h) \<and>
   (Size h1 = Size h2 \<and> Ext (Filename h1) = Ext (Filename h2) \<longrightarrow>
      stored_filename h1 = stored_filename h2) \<and>
   ((H1 = AddNoteHandler \<or> H1 = UpdateNoteHandler) \<and>
    (H2 = AddNoteHandler \<or> H2 = UpdateNoteHandler) \<and>
    H1 e1 w r1 = (resp1, w1) \<and> status resp1 = 200 \<and> image_file r1 = Some h1 \<and>
    H2 e2 w1 r2 = (resp2, w2) \<and> status resp2 = 200 \<and> image_file r2 = Some h2 \<and>
    Size h1 = Size h2 \<and> Ext (Filename h1) = Ext (Filename h2) \<longrightarrow>
      files w1 (image_path (stored_filename h1)) = Some (content h1) \<and>
      files w2 (image_path (stored_filename h1)) = Some (content h2))"
proof (intro conjI impI)
  show "stored_filename h = fmt_d (Size h) @ Ext (Filename h)"
    by (simp add: stored_filename_def)
next
  assume "Size h1 = Size h2 \<and> Ext (Filename h1) = Ext (Filename h2)"
  then show "stored_filename h1 = stored_filename h2"
    by (simp add: stored_filename_def)
next
  assume a: "(H1 = AddNoteHandler \<or> H1 = UpdateNoteHandler) \<and>
    (H2 = AddNoteHandler \<or> H2 = UpdateNoteHandler) \<and>
    H1 e1 w r1 = (resp1, w1) \<and> status resp1 = 200 \<and> image_file r1 = Some h1 \<and>
    H2 e2 w1 r2 = (resp2, w2) \<and> status resp2 = 200 \<and> image_file r2 = Some h2 \<and>
    Size h1 = Size h2 \<and> Ext (Filename h1) = Ext (Filename h2)"
  then have f1: "files w1 = (files w)(image_path (stored_filename h1) \<mapsto> content h1)"
    using upload_success_files [of H1 e1 w r1 resp1 w1 h1] by blast
  then show "files w1 (image_path (stored_filename h1)) = Some (content h1)"
    by simp
next
  assume a: "(H1 = AddNoteHandler \<or> H1 = UpdateNoteHandler) \<and>
    (H2 = AddNoteHandler \<or> H2 = UpdateNoteHandler) \<and>
    H1 e1 w r1 = (resp1, w1) \<and> status resp1 = 200 \<and> image_file r1 = Some h1 \<and>
    H2 e2 w1 r2 = (resp2, w2) \<and> status resp2 = 200 \<and> image_file r2 = Some h2 \<and>
    Size h1 = Size h2 \<and> Ext (Filename h1) = Ext (Filename h2)"
  then have f2: "files w2 = (files w1)(image_path (stored_filename h2) \<mapsto> content h2)"
    using upload_success_files [of H2 e2 w1 r2 resp2 w2 h2] by blast
  from a have "stored_filename h1 = stored_filename h2"
    by (simp add: stored_filename_def)
  with f2 show "files w2 (image_path (stored_filename h1)) = Some (content h2)"
    by simp
qed

lemma stored_filename_ex2: "stored_filename ex_upload2 = ''10.png''"
  by code_simp

lemma content_ex2: "content ex_upload2 = ''abcdefghij''"
  by (simp add: ex_upload2_def)

lemma ex_add1:
  "AddNoteHandler ex_env ex_world (ex_request [] (Some ex_upload)) =
     (success_response \<lparr>ID = 3, DateCreated = 301, Image = ''10.png'', Markdown = ''# Notes''\<rparr>,
      \<lparr>database = \<lparr>rows = [ex_note1, ex_note2,
           \<lparr>ID = 3, DateCreated = 300, Image = ''10.png'', Markdown = ''# Notes''\<rparr>], seq = 3\<rparr>,
        files = [''images/10.png'' \<mapsto> ''0123456789'']\<rparr>)"
  by (simp add: AddNoteHandler_def ex_request_def stored_filename_ex image_path_def
      save_image_def ex_env_def ex_ai_def ConvertImageToMarkdown_def content_ex
      AddNote_def no_faults_def ex_world_def ex_db_def ex_note1_def ex_note2_def Let_def)

lemma ex_add2:
  "AddNoteHandler ex_env
     \<lparr>database = \<lparr>rows = [ex_note1, ex_note2,
           \<lparr>ID = 3, DateCreated = 300, Image = ''10.png'', Markdown = ''# Notes''\<rparr>], seq = 3\<rparr>,
        files = [''images/10.png'' \<mapsto> ''0123456789'']\<rparr>
     (ex_request [] (Some ex_upload2)) =
     (success_response \<lparr>ID = 4, DateCreated = 301, Image = ''10.png'', Markdown = ''# Notes''\<rparr>,
      \<lparr>database = \<lparr>rows = [ex_note1, ex_note2,
           \<lparr>ID = 3, DateCreated = 300, Image = ''10.png'', Markdown = ''# Notes''\<rparr>,
           \<lparr>ID = 4, DateCreated = 300, Image = ''10.png'', Markdown = ''# Notes''\<rparr>], seq = 4\<rparr>,
        files = [''images/10.png'' \<mapsto> ''abcdefghij'']\<rparr>)"
  by (simp add: AddNoteHandler_def ex_request_def stored_filename_ex2 image_path_def
      save_image_def ex_env_def ex_ai_def ConvertImageToMarkdown_def content_ex2
      AddNote_def no_faults_def ex_note1_def ex_note2_def Let_def)

theorem stored_filename_collision_witness:
  "Size ex_upload = Size ex_upload2 \<and> Ext (Filename ex_upload) = Ext (Filename ex_upload2) \<and>
   content ex_upload \<noteq> content ex_upload2 \<and>
   files (snd (AddNoteHandler ex_env (snd (AddNoteHandler ex_env ex_world
            (ex_request [] (Some ex_upload)))) (ex_request [] (Some ex_upload2))))
     (image_path (stored_filename ex_upload)) = Some (content ex_upload2)"
proof -
  let ?n1 = "\<lparr>ID = 3, DateCreated = 301, Image = ''10.png'', Markdown = ''# Notes''\<rparr>"
  let ?n2 = "\<lparr>ID = 4, DateCreated = 301, Image = ''10.png'', Markdown = ''# Notes''\<rparr>"
  let ?w1 = "snd (AddNoteHandler ex_env ex_world (ex_request [] (Some ex_upload)))"
  let ?w2 = "snd (AddNoteHandler ex_env ?w1 (ex_request [] (Some ex_upload2)))"
  have s: "Size ex_upload = Size ex_upload2"
    by (simp add: ex_upload_def ex_upload2_def)
  have x: "Ext (Filename ex_upload) = Ext (Filename ex_upload2)"
    by (simp add: ex_upload_def ex_upload2_def Ext_def)
  have c: "content ex_upload \<noteq> content ex_upload2"
    by (simp add: content_ex content_ex2)
  have i1: "image_file (ex_request [] (Some ex_upload)) = Some ex_upload"
    and i2: "image_file (ex_request [] (Some ex_upload2)) = Some ex_upload2"
    by (simp_all add: ex_request_def)
  have a1: "AddNoteHandler ex_env ex_world (ex_request [] (Some ex_upload))
              = (success_response ?n1, ?w1)"
    by (simp add: ex_add1)
  have a2: "AddNoteHandler ex_env ?w1 (ex_request [] (Some ex_upload2))
              = (success_response ?n2, ?w2)"
    by (simp add: ex_add1 ex_add2)
  have "files ?w2 (image_path (stored_filename ex_upload)) = Some (content ex_upload2)"
    using stored_filename_collision
            [of ex_upload ex_upload ex_upload2 AddNoteHandler AddNoteHandler ex_env ex_world
                "ex_request [] (Some ex_upload)" "success_response ?n1" ?w1 ex_env
                "ex_request [] (Some ex_upload2)" "success_response ?n2" ?w2]
          s x i1 i2 a1 a2 success_status [of ?n1] success_status [of ?n2]
    by blast
  with s x c show ?thesis
    by blast
qed

section \<open>The success body\<close>

lemma AddNote_Inr:
  "AddNote f t1 t2 d img markdown = (Inr n, d') \<Longrightarrow> Image n = img \<and> Markdown n = markdown"
  by (auto simp: AddNote_def Let_def split: option.splits if_splits)

lemma body_success: "body (success_response n) = success_body n"
  by (simp add: success_response_def)

lemma replace_newlines_Cons:
  "replace_newlines (c # s) =
     (if c = CHR 0x0A then [CHR 0x5C, CHR ''n''] else [c]) @ replace_newlines s"
  by (simp add: replace_newlines_def)

lemma well_formed_sample:
  "well_formed_json (success_body \<lparr>ID = 3, DateCreated = 301, Image = ''10.png'',
     Markdown = [CHR ''a'', CHR 0x0A, CHR ''b'']\<rparr>)"
  by code_simp

lemma ill_formed_quote:
  "\<not> well_formed_json (success_body \<lparr>ID = 3, DateCreated = 301, Image = ''10.png'',
     Markdown = [CHR 0x22]\<rparr>)"
  by code_simp

lemma ex_add_quote:
  "fst (AddNoteHandler ex_quote_env ex_world (ex_request [] (Some ex_upload))) =
     success_response \<lparr>ID = 3, DateCreated = 301, Image = ''10.png'', Markdown = [CHR 0x22]\<rparr>"
  by (simp add: AddNoteHandler_def ex_request_def stored_filename_ex image_path_def
      save_image_def ex_quote_env_def ex_env_def ex_ai_def ConvertImageToMarkdown_def content_ex
      AddNote_def no_faults_def ex_world_def ex_db_def ex_note1_def ex_note2_def Let_def)

text \<open>
  C10. A response with status 200 of any of the three handlers has as its body the
  success text of some note, and in the add-note handler that note's markdown is the
  transcription. The success text embeds the markdown after replacing newlines only:
  each newline becomes a backslash and the letter n, every other character is copied as
  it is. There is a request whose response has status 200 and a body that is not a
  well-formed JSON text.
\<close>

theorem success_body_not_json:
  "((AddNoteHandler e w r = (resp, w') \<or> UpdateNoteHandler e w r = (resp, w') \<or>
     RegenerateNoteHandler e w r = (resp, w')) \<and> status resp = 200 \<longrightarrow>
      (\<exists>n. body resp = success_body n)) \<and>
   (AddNoteHandler e w r = (resp, w') \<and> status resp = 200 \<longrightarrow>
      (\<exists>header md n.
         image_file r = Some header \<and>
         ConvertImageToMarkdown (ai e)
           ((files w)(image_path (stored_filename header) \<mapsto> content header))
           (image_path (stored_filename header)) = Inr md \<and>
         Markdown n = md \<and> body resp = success_body n)) \<and>
   success_body n =
     ''{\"success\": true, \"id\": '' @ fmt_d (ID n) @ '', \"image\": \"'' @ Image n @
     ''\", \"markdown\": \"'' @ replace_newlines (Markdown n) @ ''\"}'' \<and>
   replace_newlines [] = [] \<and>
   replace_newlines (c # s) =
     (if c = CHR 0x0A then [CHR 0x5C, CHR ''n''] else [c]) @ replace_newlines s \<and>
   (\<exists>e w r. status (fst (AddNoteHandler e w r)) = 200 \<and>
      \<not> well_formed_json (body (fst (AddNoteHandler e w r))))"
proof (intro conjI impI)
  assume a: "(AddNoteHandler e w r = (resp, w') \<or> UpdateNoteHandler e w r = (resp, w') \<or>
     RegenerateNoteHandler e w r = (resp, w')) \<and> status resp = 200"
  then have ok: "status resp = 200" by simp
  from a consider "AddNoteHandler e w r = (resp, w')" | "UpdateNoteHandler e w r = (resp, w')"
    | "RegenerateNoteHandler e w r = (resp, w')" by blast
  then show "\<exists>n. body resp = success_body n"
  proof cases
    case 1
    from AddNoteHandler_success [OF 1 ok] show ?thesis
      using body_success by blast
  next
    case 2
    from UpdateNoteHandler_success [OF 2 ok] show ?thesis
      using body_success by blast
  next
    case 3
    from RegenerateNoteHandler_success [OF 3 ok] show ?thesis
      using body_success by blast
  qed
next
  assume a: "AddNoteHandler e w r = (resp, w') \<and> status resp = 200"
  then have h: "AddNoteHandler e w r = (resp, w')" and ok: "status resp = 200"
    by simp_all
  from AddNoteHandler_success [OF h ok]
  obtain header md n d where "image_file r = Some header"
    and "ConvertImageToMarkdown (ai e)
           ((files w)(image_path (stored_filename header) \<mapsto> content header))
           (image_path (stored_filename header)) = Inr md"
    and an: "AddNote (store_faults e) (db_now e) (go_now e) (database w)
               (stored_filename header) md = (Inr n, d)"
    and "resp = success_response n"
    by blast
  moreover from an have "Markdown n = md"
    using AddNote_Inr by blast
  ultimately show "\<exists>header md n.
         image_file r = Some header \<and>
         ConvertImageToMarkdown (ai e)
           ((files w)(image_path (stored_filename header) \<mapsto> content header))
           (image_path (stored_filename header)) = Inr md \<and>
         Markdown n = md \<and> body resp = success_body n"
    using body_success by blast
next
  show "success_body n =
     ''{\"success\": true, \"id\": '' @ fmt_d (ID n) @ '', \"image\": \"'' @ Image n @
     ''\", \"markdown\": \"'' @ replace_newlines (Markdown n) @ ''\"}''"
    by (simp add: success_body_def)
next
  show "replace_newlines [] = []"
    by (simp add: replace_newlines_def)
next
  show "replace_newlines (c # s) =
     (if c = CHR 0x0A then [CHR 0x5C, CHR ''n''] else [c]) @ replace_newlines s"
    by (rule replace_newlines_Cons)
next
  have "status (fst (AddNoteHandler ex_quote_env ex_world (ex_request [] (Some ex_upload)))) = 200"
    by (simp add: ex_add_quote success_status)
  moreover have "\<not> well_formed_json (body (fst (AddNoteHandler ex_quote_env ex_world
                     (ex_request [] (Some ex_upload)))))"
    by (simp add: ex_add_quote body_success ill_formed_quote)
  ultimately show "\<exists>e w r. status (fst (AddNoteHandler e w r)) = 200 \<and>
      \<not> well_formed_json (body (fst (AddNoteHandler e w r)))"
    by blast
qed

theorem success_body_not_json_witness:
  "status (fst (AddNoteHandler ex_quote_env ex_world (ex_request [] (Some ex_upload)))) = 200 \<and>
   (\<exists>n. Markdown n = [CHR 0x22] \<and>
      body (fst (AddNoteHandler ex_quote_env ex_world (ex_request [] (Some ex_upload))))
        = success_body n \<and>
      \<not> well_formed_json (success_body n))"
proof -
  let ?h = "AddNoteHandler ex_quote_env ex_world (ex_request [] (Some ex_upload))"
  have ok: "status (fst ?h) = 200"
    by (simp add: ex_add_quote success_status)
  have p: "AddNoteHandler ex_quote_env ex_world (ex_request [] (Some ex_upload))
             = (fst ?h, snd ?h) \<and> status (fst ?h) = 200"
    using ok by simp
  have c: "ConvertImageToMarkdown (ai ex_quote_env) fs p = Inr md \<Longrightarrow> md = [CHR 0x22]"
    for fs p md
    by (auto simp: ConvertImageToMarkdown_def ex_quote_env_def ex_env_def ex_ai_def
             split: option.splits if_splits)
  from success_body_not_json [of ex_quote_env ex_world "ex_request [] (Some ex_upload)"
         "fst ?h" "snd ?h"] p
  obtain n where "Markdown n = [CHR 0x22]" and b: "body (fst ?h) = success_body n"
    using c by blast
  moreover have e: "success_body n = success_body \<lparr>ID = 3, DateCreated = 301,
      Image = ''10.png'', Markdown = [CHR 0x22]\<rparr>"
    using b by (simp add: ex_add_quote body_success)
  moreover have "\<not> well_formed_json (success_body n)"
    unfolding e by (rule ill_formed_quote)
  ultimately show ?thesis
    using ok by blast
qed

end
